theory Spec2Isabelle
  imports Main "HOL-Library.Word"
begin

section \<open>Wifi bridge: data model\<close>

text \<open>
  Modelled from the spec: the enum \<open>WifiManagerImpl::InterfaceStatus\<close> is declared in a
  header that is not part of the sources at hand. The spec lists the raw source states
  Disabled, Disconnected, Associating, Dormant, Binding, Assigned, Scanning and calls the
  vocabulary external and uncontrolled; the source itself handles a status that misses the
  table (\<open>unknown state: %d\<close>). Every other enumerator value is \<open>Unlisted n\<close>.
\<close>

datatype InterfaceStatus =
    Disabled | Disconnected | Associating | Dormant | Binding | Assigned | Scanning
  | Unlisted int

text \<open>
  \<open>WifiState\<close> with the integer values documented in the comment above the table in the
  source: 0 UNINSTALLED, 1 DISABLED, 2 DISCONNECTED, 3 PAIRING, 4 CONNECTING, 5 CONNECTED.
\<close>

datatype WifiState = UNINSTALLED | DISABLED | DISCONNECTED | PAIRING | CONNECTING | CONNECTED

fun WifiState_int :: "WifiState \<Rightarrow> int" where
  "WifiState_int UNINSTALLED = 0"
| "WifiState_int DISABLED = 1"
| "WifiState_int DISCONNECTED = 2"
| "WifiState_int PAIRING = 3"
| "WifiState_int CONNECTING = 4"
| "WifiState_int CONNECTED = 5"

text \<open>A \<open>JsonObject\<close> is a finite map from field names to values.\<close>

datatype JsonValue = JString string | JInt int | JBool bool

type_synonym JsonObject = "string \<rightharpoonup> JsonValue"

text \<open>
  The \<open>DBusClient\<close> singleton: each synchronous query returns \<open>bool\<close> and fills an
  out-parameter, which the callers read only after \<open>true\<close>. A query is a function to an
  option, \<open>None\<close> for \<open>false\<close>. One record is the bus as it answers during one
  operation; successive operations may be given different records.
\<close>

record DBusClient =
  networkconfig1_GetInterfaces :: "string list option"
  networkconfig1_GetParam :: "string \<Rightarrow> string \<Rightarrow> string option"
  networkconfig1_GetStatus :: "string \<Rightarrow> InterfaceStatus option"

text \<open>
  What an operation does beyond its result, in the order it happens: notifications,
  warnings, the callback registration and the bus queries. The informational trace of
  \<open>LOGINFOMETHOD\<close> is left out.
\<close>

datatype warning =
    NoWifiInterfaceFound
  | FailedToGetInterfaceStatus string
  | UnknownState InterfaceStatus
  | FailedToParseSsid
  | FailedToRetrieveNetid
  | FailedToFetchInterfaces

datatype dbus_call = GetInterfaces | GetParam string string | GetStatus string

datatype effect =
    OnWIFIStateChanged WifiState bool
  | LogWarn warning
  | RegisterStatusChanged
  | DBusCall dbus_call

text \<open>
  The object: the Snapshot \<open>m_wifi_status\<close>, the function-local static \<open>name\<close> of
  \<open>getWifiInterfaceName\<close> (\<open>None\<close> until its initialiser has run), and the log of
  effects so far.
\<close>

record WifiManagerState =
  m_wifi_status :: InterfaceStatus
  name_static :: "string option"
  effects :: "effect list"

definition emit :: "effect \<Rightarrow> WifiManagerState \<Rightarrow> WifiManagerState" where
  "emit e s = s\<lparr>effects := effects s @ [e]\<rparr>"

text \<open>The state of a fresh process whose Snapshot member holds \<open>d\<close>.\<close>

definition process_start :: "InterfaceStatus \<Rightarrow> WifiManagerState" where
  "process_start d = \<lparr>m_wifi_status = d, name_static = None, effects = []\<rparr>"

text \<open>Observations on the log.\<close>

fun notifications :: "effect list \<Rightarrow> (WifiState \<times> bool) list" where
  "notifications [] = []"
| "notifications (OnWIFIStateChanged w lnf # es) = (w, lnf) # notifications es"
| "notifications (_ # es) = notifications es"

fun warnings :: "effect list \<Rightarrow> warning list" where
  "warnings [] = []"
| "warnings (LogWarn w # es) = w # warnings es"
| "warnings (_ # es) = warnings es"

fun fetch_count :: "effect list \<Rightarrow> nat" where
  "fetch_count [] = 0"
| "fetch_count (DBusCall GetInterfaces # es) = Suc (fetch_count es)"
| "fetch_count (_ # es) = fetch_count es"

section \<open>Wifi bridge: the state mapper\<close>

text \<open>The initialiser list of the \<open>std::map\<close>, in source order.\<close>

definition statusToState_entries :: "(InterfaceStatus \<times> WifiState) list" where
  "statusToState_entries =
    [(Disabled, DISABLED),
     (Disconnected, DISCONNECTED),
     (Associating, CONNECTING),
     (Dormant, DISCONNECTED),
     (Binding, CONNECTING),
     (Assigned, CONNECTED),
     (Scanning, CONNECTING)]"

text \<open>\<open>statusToState.find\<close>: \<open>None\<close> is \<open>end()\<close>.\<close>

definition statusToState :: "InterfaceStatus \<rightharpoonup> WifiState" where
  "statusToState = map_of statusToState_entries"

section \<open>Wifi bridge: interface discovery\<close>

text \<open>The range-for of \<open>fetchWifiInterfaceName\<close>; running off the list reaches \<open>return ""\<close>.\<close>

fun fetch_loop :: "DBusClient \<Rightarrow> string list \<Rightarrow> WifiManagerState \<Rightarrow> string \<times> WifiManagerState" where
  "fetch_loop dbus [] s = ('''', s)"
| "fetch_loop dbus (intf # rest) s =
     (let s1 = emit (DBusCall (GetParam intf ''type'')) s in
      case networkconfig1_GetParam dbus intf ''type'' of
        Some ty \<Rightarrow> if ty = ''wifi'' then (intf, s1) else fetch_loop dbus rest s1
      | None \<Rightarrow> fetch_loop dbus rest s1)"

definition fetchWifiInterfaceName :: "DBusClient \<Rightarrow> WifiManagerState \<Rightarrow> string \<times> WifiManagerState" where
  "fetchWifiInterfaceName dbus s =
     (let s1 = emit (DBusCall GetInterfaces) s in
      case networkconfig1_GetInterfaces dbus of
        Some interfaces \<Rightarrow> fetch_loop dbus interfaces s1
      | None \<Rightarrow> ('''', emit (LogWarn FailedToFetchInterfaces) s1))"

text \<open>
  \<open>getWifiInterfaceName\<close>: the static is initialised by the first call that reaches its
  declaration and read by every later one.
\<close>

definition getWifiInterfaceName :: "DBusClient \<Rightarrow> WifiManagerState \<Rightarrow> string \<times> WifiManagerState" where
  "getWifiInterfaceName dbus s =
     (case name_static s of
        Some n \<Rightarrow> (n, s)
      | None \<Rightarrow>
          (let (n, s1) = fetchWifiInterfaceName dbus s
           in (n, s1\<lparr>name_static := Some n\<rparr>)))"

section \<open>Wifi bridge: events\<close>

definition updateWifiStatus :: "InterfaceStatus \<Rightarrow> WifiManagerState \<Rightarrow> WifiManagerState" where
  "updateWifiStatus status s =
     (let s1 = s\<lparr>m_wifi_status := status\<rparr> in
      case statusToState (m_wifi_status s1) of
        Some st \<Rightarrow> emit (OnWIFIStateChanged st False) s1
      | None \<Rightarrow> emit (LogWarn (UnknownState (m_wifi_status s1))) s1)"

definition statusChanged ::
  "DBusClient \<Rightarrow> string \<Rightarrow> InterfaceStatus \<Rightarrow> WifiManagerState \<Rightarrow> WifiManagerState" where
  "statusChanged dbus interface status s =
     (let (n, s1) = getWifiInterfaceName dbus s
      in if interface = n then updateWifiStatus status s1 else s1)"

definition Initialize :: "DBusClient \<Rightarrow> WifiManagerState \<Rightarrow> WifiManagerState" where
  "Initialize dbus s =
     (let (n, s1) = getWifiInterfaceName dbus s in
      if n = [] then emit (LogWarn NoWifiInterfaceFound) s1
      else
        (let s2 = emit RegisterStatusChanged s1;
             (iname, s3) = getWifiInterfaceName dbus s2;
             s4 = emit (DBusCall (GetStatus iname)) s3
         in case networkconfig1_GetStatus dbus iname of
              Some status \<Rightarrow> updateWifiStatus status s4
            | None \<Rightarrow> emit (LogWarn (FailedToGetInterfaceStatus iname)) s4))"

section \<open>Wifi bridge: query handlers\<close>

text \<open>
  Modelled from the spec: the macro \<open>returnResponse\<close> comes from \<open>UtilsJsonRpc.h\<close>, which
  is not part of the sources at hand. The spec has every response carry a boolean
  \<open>success\<close> field and the handler return normally; the handlers have no other
  \<open>return\<close>, so the macro returns from the handler, with the framework's no-error code.
\<close>

definition ERROR_NONE :: "32 word" where
  "ERROR_NONE = 0"

definition returnResponse :: "bool \<Rightarrow> JsonObject \<Rightarrow> 32 word \<times> JsonObject" where
  "returnResponse success response = (ERROR_NONE, response(''success'' \<mapsto> JBool success))"

definition getCurrentState ::
  "JsonObject \<Rightarrow> JsonObject \<Rightarrow> WifiManagerState \<Rightarrow> (32 word \<times> JsonObject) \<times> WifiManagerState" where
  "getCurrentState parameters response s =
     (case statusToState (m_wifi_status s) of
        Some st \<Rightarrow> (returnResponse True (response(''state'' \<mapsto> JInt (WifiState_int st))), s)
      | None \<Rightarrow> (returnResponse False response, emit (LogWarn (UnknownState (m_wifi_status s))) s))"

text \<open>
  \<open>std::string::find\<close> of a one-character needle (\<open>None\<close> is \<open>npos\<close>) and
  \<open>std::string::substr\<close> with one argument, which throws \<open>std::out_of_range\<close> when the
  position is beyond the size (\<open>None\<close>).
\<close>

fun string_find :: "char \<Rightarrow> string \<Rightarrow> nat option" where
  "string_find c [] = None"
| "string_find c (x # xs) = (if x = c then Some 0 else map_option Suc (string_find c xs))"

definition string_substr :: "string \<Rightarrow> nat \<Rightarrow> string option" where
  "string_substr str pos = (if pos > length str then None else Some (drop pos str))"

text \<open>
  \<open>getConnectedSSID\<close>. The first component of the result is \<open>None\<close> when an exception
  leaves the handler. The inner block computes \<open>ret\<close> and the response so far; the six
  placeholder fields and \<open>returnResponse(ret)\<close> follow on every path that reaches them.
\<close>

definition getConnectedSSID ::
  "DBusClient \<Rightarrow> JsonObject \<Rightarrow> JsonObject \<Rightarrow> WifiManagerState
     \<Rightarrow> (32 word \<times> JsonObject) option \<times> WifiManagerState" where
  "getConnectedSSID dbus parameters response s =
     (let (wifiInterface, s1) = getWifiInterfaceName dbus s;
          (block, s3) =
            (if wifiInterface \<noteq> [] then
               (let s2 = emit (DBusCall (GetParam wifiInterface ''netid'')) s1 in
                case networkconfig1_GetParam dbus wifiInterface ''netid'' of
                  Some netid \<Rightarrow>
                    (case string_find CHR '':'' netid of
                       Some pos \<Rightarrow>
                         (case string_substr netid (pos + 1) of
                            Some sub \<Rightarrow> (Some (True, response(''ssid'' \<mapsto> JString sub)), s2)
                          | None \<Rightarrow> (None, s2))
                     | None \<Rightarrow> (Some (False, response), emit (LogWarn FailedToParseSsid) s2))
                | None \<Rightarrow> (Some (False, response), emit (LogWarn FailedToRetrieveNetid) s2))
             else (Some (False, response), s1))
      in case block of
           None \<Rightarrow> (None, s3)
         | Some (ret, response1) \<Rightarrow>
             (Some (returnResponse ret
                (response1(''bssid'' \<mapsto> JString '''',
                           ''rate'' \<mapsto> JString '''',
                           ''noise'' \<mapsto> JString '''',
                           ''security'' \<mapsto> JString '''',
                           ''signalStrength'' \<mapsto> JString '''',
                           ''frequency'' \<mapsto> JString ''''))), s3))"

text \<open>The two handlers that are not implemented.\<close>

definition setEnabled :: "JsonObject \<Rightarrow> JsonObject \<Rightarrow> 32 word \<times> JsonObject" where
  "setEnabled parameters response = returnResponse False response"

definition getSupportedSecurityModes :: "JsonObject \<Rightarrow> JsonObject \<Rightarrow> 32 word \<times> JsonObject" where
  "getSupportedSecurityModes parameters response = returnResponse False response"

section \<open>Wifi bridge: a process lifetime\<close>

text \<open>
  The entry points through which the host, the request threads and the bus reach the
  object, taken one at a time, each with the bus as it answers during that call.
\<close>

datatype request =
    Req_Initialize
  | Req_getCurrentState JsonObject JsonObject
  | Req_getConnectedSSID JsonObject JsonObject
  | Req_statusChanged string InterfaceStatus
  | Req_getWifiInterfaceName

fun perform :: "DBusClient \<Rightarrow> request \<Rightarrow> WifiManagerState \<Rightarrow> WifiManagerState" where
  "perform dbus Req_Initialize s = Initialize dbus s"
| "perform dbus (Req_getCurrentState parameters response) s =
     snd (getCurrentState parameters response s)"
| "perform dbus (Req_getConnectedSSID parameters response) s =
     snd (getConnectedSSID dbus parameters response s)"
| "perform dbus (Req_statusChanged interface status) s = statusChanged dbus interface status s"
| "perform dbus Req_getWifiInterfaceName s = snd (getWifiInterfaceName dbus s)"

fun run :: "(DBusClient \<times> request) list \<Rightarrow> WifiManagerState \<Rightarrow> WifiManagerState" where
  "run [] s = s"
| "run ((dbus, r) # rs) s = run rs (perform dbus r s)"

section \<open>HDCP bridge\<close>

text \<open>
  Only the class declaration of \<open>HdcpProfile\<close> is among the sources at hand; the bodies
  of \<open>onHdmiOutputHotPlug\<close>, \<open>onHdmiOutputHDCPStatusEvent\<close> and \<open>getHDCPStatus\<close> are not.
\<close>

text \<open>Modelled from the spec: the logical HDCP states the spec enumerates.\<close>

datatype HdcpState =
    UNPOWERED | UNAUTHENTICATED | AUTHENTICATED | INPUT_HOT_PLUG | INPUT_HOT_UNPLUG
  | INPUT_AUTHENTICATED | INPUT_UNAUTHENTICATED | OUTPUT_NOT_SECURE

text \<open>
  Modelled from the spec: the bridge tracks hot-plug and HDCP-status events as two
  distinct signals, the "HDMI connected" boolean and the last raw HDCP status.
\<close>

record HdcpProfile =
  hdmi_connected :: bool
  hdcp_raw :: int

text \<open>
  Modelled from the spec: the body of \<open>onHdmiOutputHotPlug(int connectStatus)\<close> is
  missing. The event puts the hot-plug signal in the connected state exactly when it
  carries the code for "connected"; that code is declared outside the sources at hand and
  is the parameter \<open>connected\<close>.
\<close>

definition onHdmiOutputHotPlug :: "int \<Rightarrow> int \<Rightarrow> HdcpProfile \<Rightarrow> HdcpProfile" where
  "onHdmiOutputHotPlug connected connectStatus h =
     h\<lparr>hdmi_connected := (connectStatus = connected)\<rparr>"

text \<open>
  Modelled from the spec: the body of \<open>onHdmiOutputHDCPStatusEvent(int)\<close> is missing.
  The event records the raw HDCP status as the last one reported.
\<close>

definition onHdmiOutputHDCPStatusEvent :: "int \<Rightarrow> HdcpProfile \<Rightarrow> HdcpProfile" where
  "onHdmiOutputHDCPStatusEvent hdcpStatus h = h\<lparr>hdcp_raw := hdcpStatus\<rparr>"

text \<open>
  Modelled from the spec: the body of \<open>getHDCPStatus\<close> is missing. The HDCP status is
  reportable only while hot-plug is in the connected state, where it is what the state
  mapper (the parameter \<open>mapper\<close>) makes of the last raw status; on disconnect it is
  treated as unauthenticated whatever the last raw HDCP event was.
\<close>

definition getHDCPStatus :: "(int \<Rightarrow> HdcpState) \<Rightarrow> HdcpProfile \<Rightarrow> HdcpState" where
  "getHDCPStatus mapper h =
     (if hdmi_connected h then mapper (hdcp_raw h) else UNAUTHENTICATED)"

section \<open>Sample environments\<close>

text \<open>A bus that answers no query.\<close>

definition dbus_unavailable :: DBusClient where
  "dbus_unavailable =
     \<lparr>networkconfig1_GetInterfaces = None,
      networkconfig1_GetParam = (\<lambda>intf key. None),
      networkconfig1_GetStatus = (\<lambda>intf. None)\<rparr>"

text \<open>
  A bus with an ethernet interface and two wifi interfaces; \<open>netid\<close> is the netid of
  \<open>wlan0\<close> and \<open>status\<close> the answer to its status query.
\<close>

definition dbus_home :: "string \<Rightarrow> InterfaceStatus option \<Rightarrow> DBusClient" where
  "dbus_home netid status =
     \<lparr>networkconfig1_GetInterfaces = Some [''eth0'', ''wlan0'', ''wlan1''],
      networkconfig1_GetParam =
        (\<lambda>intf key.
           if key = ''type'' then
             (if intf = ''eth0'' then Some ''ethernet''
              else if intf = ''wlan0'' \<or> intf = ''wlan1'' then Some ''wifi''
              else None)
           else if key = ''netid'' \<and> intf = ''wlan0'' then Some netid
           else None),
      networkconfig1_GetStatus = (\<lambda>intf. if intf = ''wlan0'' then status else None)\<rparr>"

text \<open>A raw HDCP status mapper for the samples: 2 is the authenticated status.\<close>

definition sample_mapper :: "int \<Rightarrow> HdcpState" where
  "sample_mapper raw = (if raw = 2 then AUTHENTICATED else UNAUTHENTICATED)"

section \<open>Properties: the log and the frame of the helpers\<close>

lemma emit_simps [simp]:
  "m_wifi_status (emit e s) = m_wifi_status s"
  "name_static (emit e s) = name_static s"
  "effects (emit e s) = effects s @ [e]"
  by (simp_all add: emit_def)

lemma notifications_append [simp]:
  "notifications (xs @ ys) = notifications xs @ notifications ys"
  by (induction xs rule: notifications.induct) simp_all

lemma warnings_append [simp]:
  "warnings (xs @ ys) = warnings xs @ warnings ys"
  by (induction xs rule: warnings.induct) simp_all

lemma fetch_count_append [simp]:
  "fetch_count (xs @ ys) = fetch_count xs + fetch_count ys"
  by (induction xs rule: fetch_count.induct) simp_all

lemma fetch_loop_frame:
  "m_wifi_status (snd (fetch_loop dbus xs s)) = m_wifi_status s \<and>
   name_static (snd (fetch_loop dbus xs s)) = name_static s \<and>
   notifications (effects (snd (fetch_loop dbus xs s))) = notifications (effects s) \<and>
   fetch_count (effects (snd (fetch_loop dbus xs s))) = fetch_count (effects s)"
  by (induction xs arbitrary: s) (simp_all add: Let_def split: option.splits)

lemma fetch_loop_result:
  "fst (fetch_loop dbus xs s) =
     (case find (\<lambda>intf. networkconfig1_GetParam dbus intf ''type'' = Some ''wifi'') xs of
        None \<Rightarrow> '''' | Some intf \<Rightarrow> intf)"
  by (induction xs arbitrary: s) (auto simp add: Let_def split: option.splits)

lemma fetch_frame:
  "m_wifi_status (snd (fetchWifiInterfaceName dbus s)) = m_wifi_status s \<and>
   name_static (snd (fetchWifiInterfaceName dbus s)) = name_static s \<and>
   notifications (effects (snd (fetchWifiInterfaceName dbus s))) = notifications (effects s) \<and>
   fetch_count (effects (snd (fetchWifiInterfaceName dbus s))) = Suc (fetch_count (effects s))"
  by (simp add: fetchWifiInterfaceName_def Let_def fetch_loop_frame split: option.splits)

lemma getName_cached:
  "name_static s = Some n \<Longrightarrow> getWifiInterfaceName dbus s = (n, s)"
  by (simp add: getWifiInterfaceName_def)

lemma getName_frame:
  "m_wifi_status (snd (getWifiInterfaceName dbus s)) = m_wifi_status s \<and>
   notifications (effects (snd (getWifiInterfaceName dbus s))) = notifications (effects s) \<and>
   name_static (snd (getWifiInterfaceName dbus s)) = Some (fst (getWifiInterfaceName dbus s))"
  using fetch_frame [of dbus s]
  by (cases "fetchWifiInterfaceName dbus s")
     (simp add: getWifiInterfaceName_def split: option.splits)

lemma statusToState_simps:
  "statusToState Disabled = Some DISABLED"
  "statusToState Disconnected = Some DISCONNECTED"
  "statusToState Associating = Some CONNECTING"
  "statusToState Dormant = Some DISCONNECTED"
  "statusToState Binding = Some CONNECTING"
  "statusToState Assigned = Some CONNECTED"
  "statusToState Scanning = Some CONNECTING"
  "statusToState (Unlisted n) = None"
  by (simp_all add: statusToState_def statusToState_entries_def)

lemma updateWifiStatus_step:
  "m_wifi_status (updateWifiStatus status s) = status \<and>
   name_static (updateWifiStatus status s) = name_static s \<and>
   notifications (effects (updateWifiStatus status s)) =
     notifications (effects s) @
       (case statusToState status of Some st \<Rightarrow> [(st, False)] | None \<Rightarrow> []) \<and>
   fetch_count (effects (updateWifiStatus status s)) = fetch_count (effects s)"
  by (simp add: updateWifiStatus_def Let_def split: option.splits)

section \<open>Properties: the state mapper\<close>

text \<open>
  C2. The table maps Disabled to DISABLED, Disconnected to DISCONNECTED, Associating to
  CONNECTING, Dormant to DISCONNECTED, Binding to CONNECTING, Assigned to CONNECTED and
  Scanning to CONNECTING, and has no entry for any other raw status: its domain is these
  seven keys and its initialiser list has seven pairs.
\<close>

theorem statusToState_table:
  "statusToState Disabled = Some DISABLED \<and>
   statusToState Disconnected = Some DISCONNECTED \<and>
   statusToState Associating = Some CONNECTING \<and>
   statusToState Dormant = Some DISCONNECTED \<and>
   statusToState Binding = Some CONNECTING \<and>
   statusToState Assigned = Some CONNECTED \<and>
   statusToState Scanning = Some CONNECTING \<and>
   dom statusToState =
     {Disabled, Disconnected, Associating, Dormant, Binding, Assigned, Scanning} \<and>
   length statusToState_entries = 7"
  by (simp add: statusToState_def statusToState_entries_def dom_map_of_conv_image_fst)

section \<open>Properties: notifications\<close>

text \<open>
  C1, as the claim states it, fails: the Snapshot already holds Associating when
  Associating arrives again, the logical state is the same CONNECTING, and a second
  notification fires; Associating, Scanning, Binding give three notifications, not one.
\<close>

theorem updateWifiStatus_repeat_counterexample:
  "notifications (effects
      (fold updateWifiStatus [Associating, Associating] (process_start Disconnected))) =
     [(CONNECTING, False), (CONNECTING, False)] \<and>
   notifications (effects
      (fold updateWifiStatus [Associating, Scanning, Binding] (process_start Disconnected))) =
     [(CONNECTING, False), (CONNECTING, False), (CONNECTING, False)] \<and>
   statusToState Associating =
     statusToState (m_wifi_status (updateWifiStatus Associating (process_start Disconnected)))"
  by (simp add: updateWifiStatus_def emit_def process_start_def statusToState_simps)

text \<open>
  C1, amended. \<open>updateWifiStatus\<close> stores the incoming raw status in the Snapshot and
  notifies whenever that status is in the table, whatever the Snapshot held before: one
  step adds a notification if and only if the incoming status is in the table, and a
  sequence of raw statuses yields one notification, in order, for each of its members
  that is in the table.
\<close>

theorem updateWifiStatus_notifies_each_mapped_status:
  "m_wifi_status (updateWifiStatus status s) = status \<and>
   (notifications (effects (updateWifiStatus status s)) \<noteq> notifications (effects s)
      \<longleftrightarrow> status \<in> dom statusToState) \<and>
   notifications (effects (fold updateWifiStatus raws s)) =
     notifications (effects s) @
       map (\<lambda>st. (st, False)) (List.map_filter statusToState raws)"
proof -
  have seq: "notifications (effects (fold updateWifiStatus raws s)) =
     notifications (effects s) @
       map (\<lambda>st. (st, False)) (List.map_filter statusToState raws)"
    by (induction raws arbitrary: s)
       (simp_all add: updateWifiStatus_step split: option.splits)
  have one: "notifications (effects (updateWifiStatus status s)) \<noteq> notifications (effects s)
      \<longleftrightarrow> status \<in> dom statusToState"
    by (cases "statusToState status") (auto simp add: updateWifiStatus_step)
  show ?thesis
    using seq one by (simp add: updateWifiStatus_step)
qed

section \<open>Properties: the helpers, continued\<close>

lemma process_start_simps [simp]:
  "m_wifi_status (process_start d) = d"
  "name_static (process_start d) = None"
  "effects (process_start d) = []"
  by (simp_all add: process_start_def)

lemma fetch_loop_extends:
  "\<exists>es. effects (snd (fetch_loop dbus xs s)) = effects s @ es"
proof (induction xs arbitrary: s)
  case Nil
  show ?case by simp
next
  case (Cons intf rest)
  obtain es where
    "effects (snd (fetch_loop dbus rest (emit (DBusCall (GetParam intf ''type'')) s))) =
       effects (emit (DBusCall (GetParam intf ''type'')) s) @ es"
    using Cons.IH by blast
  then show ?case
    by (auto simp add: Let_def split: option.splits)
qed

lemma fetch_extends:
  "\<exists>es. effects (snd (fetchWifiInterfaceName dbus s)) = effects s @ es"
proof (cases "networkconfig1_GetInterfaces dbus")
  case None
  then show ?thesis by (simp add: fetchWifiInterfaceName_def Let_def)
next
  case (Some interfaces)
  obtain es where
    "effects (snd (fetch_loop dbus interfaces (emit (DBusCall GetInterfaces) s))) =
       effects (emit (DBusCall GetInterfaces) s) @ es"
    using fetch_loop_extends by blast
  with Some show ?thesis by (simp add: fetchWifiInterfaceName_def Let_def)
qed

lemma getName_extends:
  "\<exists>es. effects (snd (getWifiInterfaceName dbus s)) = effects s @ es"
  using fetch_extends [of dbus s]
  by (cases "fetchWifiInterfaceName dbus s")
     (auto simp add: getWifiInterfaceName_def split: option.splits)

lemma getName_budget:
  "fetch_count (effects (snd (getWifiInterfaceName dbus s))) +
     (if name_static (snd (getWifiInterfaceName dbus s)) = None then 1 else 0) =
   fetch_count (effects s) + (if name_static s = None then 1 else 0)"
  using fetch_frame [of dbus s]
  by (cases "fetchWifiInterfaceName dbus s")
     (auto simp add: getWifiInterfaceName_def split: option.splits)

lemma Initialize_unfold:
  assumes "getWifiInterfaceName dbus s = (n, s1)"
  shows "Initialize dbus s =
     (if n = [] then emit (LogWarn NoWifiInterfaceFound) s1
      else case networkconfig1_GetStatus dbus n of
             Some status \<Rightarrow>
               updateWifiStatus status
                 (emit (DBusCall (GetStatus n)) (emit RegisterStatusChanged s1))
           | None \<Rightarrow>
               emit (LogWarn (FailedToGetInterfaceStatus n))
                 (emit (DBusCall (GetStatus n)) (emit RegisterStatusChanged s1)))"
proof -
  have "name_static s1 = Some n"
    using getName_frame [of dbus s] assms by simp
  then have "getWifiInterfaceName dbus (emit RegisterStatusChanged s1) =
      (n, emit RegisterStatusChanged s1)"
    by (simp add: getName_cached)
  then show ?thesis
    using assms by (simp add: Initialize_def Let_def split: option.splits)
qed

lemma string_find_None: "string_find c str = None \<longleftrightarrow> c \<notin> set str"
  by (induction str) auto

lemma string_find_split:
  "c \<notin> set pre \<Longrightarrow> string_find c (pre @ c # post) = Some (length pre)"
  by (induction pre) auto

lemma string_find_bound: "string_find c str = Some pos \<Longrightarrow> pos < length str"
  by (induction str arbitrary: pos) (auto split: if_splits)

lemma getConnectedSSID_unfold:
  assumes "getWifiInterfaceName dbus s = (n, s1)"
  shows "getConnectedSSID dbus parameters response s =
     (if n = [] then
        (Some (returnResponse False
           (response(''bssid'' \<mapsto> JString '''', ''rate'' \<mapsto> JString '''',
              ''noise'' \<mapsto> JString '''', ''security'' \<mapsto> JString '''',
              ''signalStrength'' \<mapsto> JString '''', ''frequency'' \<mapsto> JString ''''))), s1)
      else case networkconfig1_GetParam dbus n ''netid'' of
        None \<Rightarrow>
          (Some (returnResponse False
             (response(''bssid'' \<mapsto> JString '''', ''rate'' \<mapsto> JString '''',
                ''noise'' \<mapsto> JString '''', ''security'' \<mapsto> JString '''',
                ''signalStrength'' \<mapsto> JString '''', ''frequency'' \<mapsto> JString ''''))),
           emit (LogWarn FailedToRetrieveNetid) (emit (DBusCall (GetParam n ''netid'')) s1))
      | Some netid \<Rightarrow>
          (case string_find CHR '':'' netid of
             None \<Rightarrow>
               (Some (returnResponse False
                  (response(''bssid'' \<mapsto> JString '''', ''rate'' \<mapsto> JString '''',
                     ''noise'' \<mapsto> JString '''', ''security'' \<mapsto> JString '''',
                     ''signalStrength'' \<mapsto> JString '''', ''frequency'' \<mapsto> JString ''''))),
                emit (LogWarn FailedToParseSsid) (emit (DBusCall (GetParam n ''netid'')) s1))
           | Some pos \<Rightarrow>
               (Some (returnResponse True
                  (response(''ssid'' \<mapsto> JString (drop (Suc pos) netid),
                     ''bssid'' \<mapsto> JString '''', ''rate'' \<mapsto> JString '''',
                     ''noise'' \<mapsto> JString '''', ''security'' \<mapsto> JString '''',
                     ''signalStrength'' \<mapsto> JString '''', ''frequency'' \<mapsto> JString ''''))),
                emit (DBusCall (GetParam n ''netid'')) s1)))"
  using assms
  by (auto simp add: getConnectedSSID_def Let_def string_substr_def
      dest: string_find_bound split: option.splits)

text \<open>The interface name on the sample buses.\<close>

lemma getName_unavailable:
  "getWifiInterfaceName dbus_unavailable (process_start d) =
     ('''', \<lparr>m_wifi_status = d, name_static = Some '''',
            effects = [DBusCall GetInterfaces, LogWarn FailedToFetchInterfaces]\<rparr>)"
  by (simp add: getWifiInterfaceName_def fetchWifiInterfaceName_def dbus_unavailable_def
      process_start_def emit_def Let_def)

lemma getName_home:
  "getWifiInterfaceName (dbus_home netid status) (process_start d) =
     (''wlan0'', \<lparr>m_wifi_status = d, name_static = Some ''wlan0'',
            effects = [DBusCall GetInterfaces, DBusCall (GetParam ''eth0'' ''type''),
                       DBusCall (GetParam ''wlan0'' ''type'')]\<rparr>)"
  by (simp add: getWifiInterfaceName_def fetchWifiInterfaceName_def dbus_home_def
      process_start_def emit_def Let_def)

lemma getCurrentState_frame:
  "name_static (snd (getCurrentState parameters response s)) = name_static s \<and>
   fetch_count (effects (snd (getCurrentState parameters response s))) = fetch_count (effects s)"
  by (simp add: getCurrentState_def split: option.splits)

lemma Initialize_budget:
  "name_static (Initialize dbus s) = name_static (snd (getWifiInterfaceName dbus s)) \<and>
   fetch_count (effects (Initialize dbus s)) =
     fetch_count (effects (snd (getWifiInterfaceName dbus s)))"
proof -
  obtain n s1 where call: "getWifiInterfaceName dbus s = (n, s1)"
    by (cases "getWifiInterfaceName dbus s")
  show ?thesis
    using call
    by (simp add: Initialize_unfold [OF call] updateWifiStatus_step split: option.splits)
qed

lemma statusChanged_budget:
  "name_static (statusChanged dbus interface status s) =
     name_static (snd (getWifiInterfaceName dbus s)) \<and>
   fetch_count (effects (statusChanged dbus interface status s)) =
     fetch_count (effects (snd (getWifiInterfaceName dbus s)))"
  by (cases "getWifiInterfaceName dbus s")
     (simp add: statusChanged_def updateWifiStatus_step)

lemma getConnectedSSID_budget:
  "name_static (snd (getConnectedSSID dbus parameters response s)) =
     name_static (snd (getWifiInterfaceName dbus s)) \<and>
   fetch_count (effects (snd (getConnectedSSID dbus parameters response s))) =
     fetch_count (effects (snd (getWifiInterfaceName dbus s)))"
proof -
  obtain n s1 where call: "getWifiInterfaceName dbus s = (n, s1)"
    by (cases "getWifiInterfaceName dbus s")
  show ?thesis
    using call
    by (simp add: getConnectedSSID_unfold [OF call] split: option.splits)
qed

lemma perform_budget:
  "fetch_count (effects (perform dbus r s)) +
     (if name_static (perform dbus r s) = None then 1 else 0) =
   fetch_count (effects s) + (if name_static s = None then 1 else 0)"
proof (cases r)
  case Req_Initialize
  then show ?thesis
    using getName_budget [of dbus s] by (simp add: Initialize_budget)
next
  case (Req_getCurrentState parameters response)
  then show ?thesis by (simp add: getCurrentState_frame)
next
  case (Req_getConnectedSSID parameters response)
  then show ?thesis
    using getName_budget [of dbus s] by (simp add: getConnectedSSID_budget)
next
  case (Req_statusChanged interface status)
  then show ?thesis
    using getName_budget [of dbus s] by (simp add: statusChanged_budget)
next
  case Req_getWifiInterfaceName
  then show ?thesis
    using getName_budget [of dbus s] by simp
qed

lemma perform_keeps_name:
  assumes "name_static s = Some n"
  shows "name_static (perform dbus r s) = Some n"
proof -
  have cached: "getWifiInterfaceName dbus s = (n, s)"
    using assms by (rule getName_cached)
  show ?thesis
  proof (cases r)
    case Req_Initialize
    then show ?thesis using assms cached by (simp add: Initialize_budget)
  next
    case (Req_getCurrentState parameters response)
    then show ?thesis using assms by (simp add: getCurrentState_frame)
  next
    case (Req_getConnectedSSID parameters response)
    then show ?thesis using assms cached by (simp add: getConnectedSSID_budget)
  next
    case (Req_statusChanged interface status)
    then show ?thesis using assms cached by (simp add: statusChanged_budget)
  next
    case Req_getWifiInterfaceName
    then show ?thesis using assms cached by simp
  qed
qed

lemma run_budget:
  "fetch_count (effects (run rs s)) + (if name_static (run rs s) = None then 1 else 0) =
   fetch_count (effects s) + (if name_static s = None then 1 else 0)"
proof (induction rs arbitrary: s)
  case Nil
  show ?case by simp
next
  case (Cons a rs)
  obtain dbus r where a: "a = (dbus, r)" by (cases a)
  show ?case
    using Cons.IH [of "perform dbus r s"] perform_budget [of dbus r s] a by simp
qed

lemma run_keeps_name:
  "name_static s = Some n \<Longrightarrow> name_static (run rs s) = Some n"
proof (induction rs arbitrary: s)
  case Nil
  then show ?case by simp
next
  case (Cons a rs)
  obtain dbus r where a: "a = (dbus, r)" by (cases a)
  show ?case
    using Cons.IH [of "perform dbus r s"] perform_keeps_name [OF Cons.prems, of dbus r] a
    by simp
qed

section \<open>Properties: the query handlers\<close>

text \<open>
  C3, as the claim states it, fails on the \<open>ssid\<close> field: with no wifi interface
  resolved the handler never assigns \<open>response["ssid"]\<close>, so a response that arrives
  without that field leaves without it.
\<close>

theorem getConnectedSSID_no_interface_counterexample:
  "fst (getWifiInterfaceName dbus_unavailable (process_start Disconnected)) = '''' \<and>
   fst (getConnectedSSID dbus_unavailable Map.empty Map.empty (process_start Disconnected))
     \<noteq> None \<and>
   snd (the (fst (getConnectedSSID dbus_unavailable Map.empty Map.empty
     (process_start Disconnected)))) ''ssid'' = None \<and>
   snd (the (fst (getConnectedSSID dbus_unavailable Map.empty Map.empty
     (process_start Disconnected)))) ''ssid'' \<noteq> Some (JString '''')"
  by (simp add: getConnectedSSID_unfold [OF getName_unavailable] getName_unavailable
      returnResponse_def)

text \<open>
  C3, amended. If no interface of type "wifi" was resolved (\<open>getWifiInterfaceName\<close> is
  empty), \<open>getConnectedSSID\<close> returns normally with \<open>success\<close> false and the fields
  \<open>bssid\<close>, \<open>rate\<close>, \<open>noise\<close>, \<open>security\<close>, \<open>signalStrength\<close>, \<open>frequency\<close> set to
  empty strings; it does not touch \<open>ssid\<close>, which stays as the incoming response had it
  (absent when the incoming response has none), and raises no fault.
\<close>

theorem getConnectedSSID_no_interface:
  "fst (getWifiInterfaceName dbus s) = '''' \<Longrightarrow>
   getConnectedSSID dbus parameters response s =
     (Some (ERROR_NONE,
        response(''bssid'' \<mapsto> JString '''', ''rate'' \<mapsto> JString '''',
          ''noise'' \<mapsto> JString '''', ''security'' \<mapsto> JString '''',
          ''signalStrength'' \<mapsto> JString '''', ''frequency'' \<mapsto> JString '''',
          ''success'' \<mapsto> JBool False)),
      snd (getWifiInterfaceName dbus s)) \<and>
   snd (the (fst (getConnectedSSID dbus parameters response s))) ''ssid'' = response ''ssid''"
proof -
  assume empty: "fst (getWifiInterfaceName dbus s) = ''''"
  obtain n s1 where call: "getWifiInterfaceName dbus s = (n, s1)"
    by (cases "getWifiInterfaceName dbus s")
  with empty have "n = []" by simp
  then show ?thesis
    using getConnectedSSID_unfold [OF call, of parameters response] call
    by (simp add: returnResponse_def)
qed

theorem getConnectedSSID_no_interface_witness:
  "fst (getWifiInterfaceName dbus_unavailable (process_start Disconnected)) = '''' \<and>
   fst (getConnectedSSID dbus_unavailable Map.empty [''ssid'' \<mapsto> JString ''stale'']
          (process_start Disconnected)) =
     Some (ERROR_NONE,
        [''ssid'' \<mapsto> JString ''stale'',
         ''bssid'' \<mapsto> JString '''', ''rate'' \<mapsto> JString '''',
         ''noise'' \<mapsto> JString '''', ''security'' \<mapsto> JString '''',
         ''signalStrength'' \<mapsto> JString '''', ''frequency'' \<mapsto> JString '''',
         ''success'' \<mapsto> JBool False])"
proof -
  have h: "fst (getWifiInterfaceName dbus_unavailable (process_start Disconnected)) = ''''"
    by (simp add: getName_unavailable)
  show ?thesis
    using h getConnectedSSID_no_interface [OF h, of Map.empty "[''ssid'' \<mapsto> JString ''stale'']"]
    by simp
qed

text \<open>
  C4. When the Snapshot status is in the table, \<open>getCurrentState\<close> returns the response
  with \<open>state\<close> set to the integer of the mapped state and \<open>success\<close> true; when it
  is not, \<open>success\<close> is false. Either way the handler returns the no-error code with a
  boolean \<open>success\<close> field and leaves the Snapshot as it was.
\<close>

theorem getCurrentState_response:
  "(statusToState (m_wifi_status s) = Some st \<longrightarrow>
      getCurrentState parameters response s =
        ((ERROR_NONE,
          response(''state'' \<mapsto> JInt (WifiState_int st), ''success'' \<mapsto> JBool True)), s)) \<and>
   (statusToState (m_wifi_status s) = None \<longrightarrow>
      fst (getCurrentState parameters response s) =
        (ERROR_NONE, response(''success'' \<mapsto> JBool False))) \<and>
   (\<exists>b. snd (fst (getCurrentState parameters response s)) ''success'' = Some (JBool b)) \<and>
   m_wifi_status (snd (getCurrentState parameters response s)) = m_wifi_status s"
  by (cases "statusToState (m_wifi_status s)")
     (auto simp add: getCurrentState_def returnResponse_def)

theorem getCurrentState_response_witness:
  "statusToState (m_wifi_status (process_start Assigned)) = Some CONNECTED \<and>
   getCurrentState Map.empty Map.empty (process_start Assigned) =
     ((ERROR_NONE, [''state'' \<mapsto> JInt 5, ''success'' \<mapsto> JBool True]), process_start Assigned) \<and>
   statusToState (m_wifi_status (process_start (Unlisted 42))) = None \<and>
   fst (getCurrentState Map.empty Map.empty (process_start (Unlisted 42))) =
     (ERROR_NONE, [''success'' \<mapsto> JBool False])"
proof -
  have a: "statusToState (m_wifi_status (process_start Assigned)) = Some CONNECTED"
    by (simp add: process_start_def statusToState_simps)
  have u: "statusToState (m_wifi_status (process_start (Unlisted 42))) = None"
    by (simp add: process_start_def statusToState_simps)
  show ?thesis
    using a u
      getCurrentState_response [of "process_start Assigned" CONNECTED Map.empty Map.empty]
      getCurrentState_response [of "process_start (Unlisted 42)" CONNECTED Map.empty Map.empty]
    by simp
qed

text \<open>
  C10. \<open>getConnectedSSID\<close> always returns, and its \<open>success\<close> field is true exactly
  when the resolved interface name is non-empty, the \<open>netid\<close> query succeeds and the
  netid contains a colon; then \<open>ssid\<close> is what follows the first colon. When the query
  succeeds with a netid that has no colon, \<open>success\<close> is false and \<open>ssid\<close> is left as
  the incoming response had it.
\<close>

theorem getConnectedSSID_success_iff:
  "fst (getConnectedSSID dbus parameters response s) \<noteq> None \<and>
   fst (the (fst (getConnectedSSID dbus parameters response s))) = ERROR_NONE \<and>
   snd (the (fst (getConnectedSSID dbus parameters response s))) ''success'' =
     Some (JBool
       (fst (getWifiInterfaceName dbus s) \<noteq> '''' \<and>
        (\<exists>netid. networkconfig1_GetParam dbus (fst (getWifiInterfaceName dbus s)) ''netid'' =
                    Some netid \<and> CHR '':'' \<in> set netid))) \<and>
   (fst (getWifiInterfaceName dbus s) \<noteq> '''' \<longrightarrow>
    networkconfig1_GetParam dbus (fst (getWifiInterfaceName dbus s)) ''netid'' =
      Some (pre @ CHR '':'' # post) \<longrightarrow>
    CHR '':'' \<notin> set pre \<longrightarrow>
    snd (the (fst (getConnectedSSID dbus parameters response s))) ''ssid'' =
      Some (JString post)) \<and>
   (fst (getWifiInterfaceName dbus s) \<noteq> '''' \<longrightarrow>
    networkconfig1_GetParam dbus (fst (getWifiInterfaceName dbus s)) ''netid'' = Some plain \<longrightarrow>
    CHR '':'' \<notin> set plain \<longrightarrow>
    snd (the (fst (getConnectedSSID dbus parameters response s))) ''success'' =
      Some (JBool False) \<and>
    snd (the (fst (getConnectedSSID dbus parameters response s))) ''ssid'' = response ''ssid'')"
proof -
  obtain n s1 where call: "getWifiInterfaceName dbus s = (n, s1)"
    by (cases "getWifiInterfaceName dbus s")
  note unfold = getConnectedSSID_unfold [OF call, of parameters response]
  have returns: "fst (getConnectedSSID dbus parameters response s) \<noteq> None \<and>
      fst (the (fst (getConnectedSSID dbus parameters response s))) = ERROR_NONE"
    by (simp add: unfold returnResponse_def split: option.splits)
  have success: "snd (the (fst (getConnectedSSID dbus parameters response s))) ''success'' =
     Some (JBool (n \<noteq> '''' \<and>
        (\<exists>netid. networkconfig1_GetParam dbus n ''netid'' = Some netid \<and>
                  CHR '':'' \<in> set netid)))"
  proof (cases "networkconfig1_GetParam dbus n ''netid''")
    case None
    then show ?thesis by (simp add: unfold returnResponse_def)
  next
    case (Some netid)
    show ?thesis
    proof (cases "string_find CHR '':'' netid")
      case None
      then have "CHR '':'' \<notin> set netid" by (simp add: string_find_None)
      with Some None show ?thesis by (simp add: unfold returnResponse_def)
    next
      case (Some pos)
      then have "CHR '':'' \<in> set netid"
        using string_find_None [of "CHR '':''" netid] by auto
      with Some \<open>networkconfig1_GetParam dbus n ''netid'' = Some netid\<close>
      show ?thesis by (simp add: unfold returnResponse_def)
    qed
  qed
  have parsed: "snd (the (fst (getConnectedSSID dbus parameters response s))) ''ssid'' =
      Some (JString post)"
    if "n \<noteq> ''''" "networkconfig1_GetParam dbus n ''netid'' = Some (pre @ CHR '':'' # post)"
      "CHR '':'' \<notin> set pre"
    using that by (simp add: unfold returnResponse_def string_find_split)
  have unparsed: "snd (the (fst (getConnectedSSID dbus parameters response s))) ''success'' =
      Some (JBool False) \<and>
      snd (the (fst (getConnectedSSID dbus parameters response s))) ''ssid'' = response ''ssid''"
    if "n \<noteq> ''''" "networkconfig1_GetParam dbus n ''netid'' = Some plain"
      "CHR '':'' \<notin> set plain"
  proof -
    have "string_find CHR '':'' plain = None"
      using that(3) by (simp add: string_find_None)
    with that show ?thesis by (simp add: unfold returnResponse_def)
  qed
  show ?thesis
    using returns success parsed unparsed call by simp
qed

theorem getConnectedSSID_success_iff_witness:
  "fst (getWifiInterfaceName (dbus_home ''7:HomeNet'' None) (process_start Disconnected))
     \<noteq> '''' \<and>
   networkconfig1_GetParam (dbus_home ''7:HomeNet'' None)
     (fst (getWifiInterfaceName (dbus_home ''7:HomeNet'' None) (process_start Disconnected)))
     ''netid'' = Some (''7'' @ CHR '':'' # ''HomeNet'') \<and>
   CHR '':'' \<notin> set ''7'' \<and>
   snd (the (fst (getConnectedSSID (dbus_home ''7:HomeNet'' None) Map.empty Map.empty
     (process_start Disconnected)))) ''ssid'' = Some (JString ''HomeNet'') \<and>
   snd (the (fst (getConnectedSSID (dbus_home ''7:HomeNet'' None) Map.empty Map.empty
     (process_start Disconnected)))) ''success'' = Some (JBool True) \<and>
   fst (getWifiInterfaceName (dbus_home ''HomeNet'' None) (process_start Disconnected))
     \<noteq> '''' \<and>
   networkconfig1_GetParam (dbus_home ''HomeNet'' None)
     (fst (getWifiInterfaceName (dbus_home ''HomeNet'' None) (process_start Disconnected)))
     ''netid'' = Some ''HomeNet'' \<and>
   CHR '':'' \<notin> set ''HomeNet'' \<and>
   snd (the (fst (getConnectedSSID (dbus_home ''HomeNet'' None) Map.empty Map.empty
     (process_start Disconnected)))) ''success'' = Some (JBool False) \<and>
   snd (the (fst (getConnectedSSID (dbus_home ''HomeNet'' None) Map.empty Map.empty
     (process_start Disconnected)))) ''ssid'' = None"
proof -
  have p: "networkconfig1_GetParam (dbus_home netid None) ''wlan0'' ''netid'' = Some netid"
    for netid by (simp add: dbus_home_def)
  have colon: "CHR '':'' \<in> set ''7:HomeNet''" by simp
  show ?thesis
    using colon
      getConnectedSSID_success_iff [of "dbus_home ''7:HomeNet'' None" Map.empty Map.empty
        "process_start Disconnected" "''7''" "''HomeNet''" "''''"]
      getConnectedSSID_success_iff [of "dbus_home ''HomeNet'' None" Map.empty Map.empty
        "process_start Disconnected" "''''" "''''" "''HomeNet''"]
    by (simp add: getName_home p)
qed

section \<open>Properties: initialisation and events\<close>

text \<open>
  C5. If no wifi interface was resolved, or the seed status query fails, \<open>Initialize\<close>
  returns with the Snapshot unchanged and no notification emitted, and the last thing it
  does is log the warning of the branch taken.
\<close>

theorem Initialize_failure_keeps_snapshot:
  "fst (getWifiInterfaceName dbus s) = '''' \<or>
   networkconfig1_GetStatus dbus (fst (getWifiInterfaceName dbus s)) = None \<Longrightarrow>
   m_wifi_status (Initialize dbus s) = m_wifi_status s \<and>
   notifications (effects (Initialize dbus s)) = notifications (effects s) \<and>
   (\<exists>es. effects (Initialize dbus s) =
      effects s @ es @
        [LogWarn (if fst (getWifiInterfaceName dbus s) = '''' then NoWifiInterfaceFound
                  else FailedToGetInterfaceStatus (fst (getWifiInterfaceName dbus s)))])"
proof -
  assume fail: "fst (getWifiInterfaceName dbus s) = '''' \<or>
     networkconfig1_GetStatus dbus (fst (getWifiInterfaceName dbus s)) = None"
  obtain n s1 where call: "getWifiInterfaceName dbus s = (n, s1)"
    by (cases "getWifiInterfaceName dbus s")
  have frame: "m_wifi_status s1 = m_wifi_status s"
    "notifications (effects s1) = notifications (effects s)"
    using getName_frame [of dbus s] call by simp_all
  obtain es where ext: "effects s1 = effects s @ es"
    using getName_extends [of dbus s] call by auto
  show ?thesis
  proof (cases "n = []")
    case True
    then have "Initialize dbus s = emit (LogWarn NoWifiInterfaceFound) s1"
      using Initialize_unfold [OF call] by simp
    then show ?thesis
      using True call frame ext by simp
  next
    case False
    with fail call have "networkconfig1_GetStatus dbus n = None" by simp
    then have "Initialize dbus s =
        emit (LogWarn (FailedToGetInterfaceStatus n))
          (emit (DBusCall (GetStatus n)) (emit RegisterStatusChanged s1))"
      using Initialize_unfold [OF call] False by simp
    then show ?thesis
      using False call frame ext by simp
  qed
qed

theorem Initialize_failure_keeps_snapshot_witness:
  "fst (getWifiInterfaceName dbus_unavailable (process_start Disconnected)) = '''' \<and>
   m_wifi_status (Initialize dbus_unavailable (process_start Disconnected)) = Disconnected \<and>
   notifications (effects (Initialize dbus_unavailable (process_start Disconnected))) = [] \<and>
   networkconfig1_GetStatus (dbus_home ''7:HomeNet'' None)
     (fst (getWifiInterfaceName (dbus_home ''7:HomeNet'' None) (process_start Disconnected))) = None \<and>
   m_wifi_status (Initialize (dbus_home ''7:HomeNet'' None) (process_start Disconnected)) =
     Disconnected \<and>
   notifications (effects (Initialize (dbus_home ''7:HomeNet'' None) (process_start Disconnected)))
     = []"
proof -
  have h1: "fst (getWifiInterfaceName dbus_unavailable (process_start Disconnected)) = ''''"
    by (simp add: getName_unavailable)
  have h2: "networkconfig1_GetStatus (dbus_home ''7:HomeNet'' None)
     (fst (getWifiInterfaceName (dbus_home ''7:HomeNet'' None) (process_start Disconnected))) = None"
    by (simp add: getName_home) (simp add: dbus_home_def)
  show ?thesis
    using h1 h2
      Initialize_failure_keeps_snapshot [OF disjI1, OF h1]
      Initialize_failure_keeps_snapshot [OF disjI2, OF h2]
    by (simp add: process_start_def)
qed

text \<open>
  C9. A status-change event whose interface name differs from the resolved wifi interface
  name does nothing beyond resolving that name: the Snapshot is unchanged and no
  notification is emitted.
\<close>

theorem statusChanged_other_interface:
  "interface \<noteq> fst (getWifiInterfaceName dbus s) \<Longrightarrow>
   statusChanged dbus interface status s = snd (getWifiInterfaceName dbus s) \<and>
   m_wifi_status (statusChanged dbus interface status s) = m_wifi_status s \<and>
   notifications (effects (statusChanged dbus interface status s)) = notifications (effects s)"
  using getName_frame [of dbus s]
  by (cases "getWifiInterfaceName dbus s") (simp add: statusChanged_def)

theorem statusChanged_other_interface_witness:
  "''eth0'' \<noteq> fst (getWifiInterfaceName (dbus_home ''7:HomeNet'' (Some Assigned))
                      (process_start Disconnected)) \<and>
   m_wifi_status (statusChanged (dbus_home ''7:HomeNet'' (Some Assigned)) ''eth0'' Assigned
                    (process_start Disconnected)) = Disconnected \<and>
   notifications (effects (statusChanged (dbus_home ''7:HomeNet'' (Some Assigned)) ''eth0''
                    Assigned (process_start Disconnected))) = [] \<and>
   m_wifi_status (statusChanged (dbus_home ''7:HomeNet'' (Some Assigned)) ''wlan0'' Assigned
                    (process_start Disconnected)) = Assigned"
proof -
  have h: "''eth0'' \<noteq> fst (getWifiInterfaceName (dbus_home ''7:HomeNet'' (Some Assigned))
                      (process_start Disconnected))"
    by (simp add: getName_home)
  have own: "m_wifi_status (statusChanged (dbus_home ''7:HomeNet'' (Some Assigned)) ''wlan0''
      Assigned (process_start Disconnected)) = Assigned"
    by (simp add: statusChanged_def getName_home updateWifiStatus_step)
  show ?thesis
    using h own statusChanged_other_interface [OF h, of Assigned]
    by (simp add: getName_home)
qed

section \<open>Properties: interface discovery\<close>

text \<open>
  C6. \<open>fetchWifiInterfaceName\<close> returns the first name of the interface listing, in
  listing order, whose \<open>type\<close> query succeeds with exactly \<open>wifi\<close>; it returns the
  empty string when the listing query fails or no interface qualifies.
\<close>

theorem fetchWifiInterfaceName_first_wifi:
  "fst (fetchWifiInterfaceName dbus s) =
     (case networkconfig1_GetInterfaces dbus of
        None \<Rightarrow> ''''
      | Some interfaces \<Rightarrow>
          (case find (\<lambda>intf. networkconfig1_GetParam dbus intf ''type'' = Some ''wifi'')
                  interfaces of
             None \<Rightarrow> ''''
           | Some intf \<Rightarrow> intf))"
  by (simp add: fetchWifiInterfaceName_def Let_def fetch_loop_result split: option.splits)

text \<open>
  C7. Every invocation of \<open>fetchWifiInterfaceName\<close> issues one interface-listing
  query and nothing else issues one, so \<open>fetch_count\<close> counts the invocations. After a
  first call of \<open>getWifiInterfaceName\<close>, whatever requests follow and however the bus
  answers them, a later call returns the string of the first call and no further
  invocation happens; the first call makes at most one; and a process makes at most one
  in its whole lifetime.
\<close>

theorem getWifiInterfaceName_memoized:
  "fst (getWifiInterfaceName dbus' (run rs (snd (getWifiInterfaceName dbus s)))) =
     fst (getWifiInterfaceName dbus s) \<and>
   fetch_count (effects (snd (getWifiInterfaceName dbus'
       (run rs (snd (getWifiInterfaceName dbus s)))))) =
     fetch_count (effects (snd (getWifiInterfaceName dbus s))) \<and>
   fetch_count (effects (snd (getWifiInterfaceName dbus s))) \<le> Suc (fetch_count (effects s)) \<and>
   fetch_count (effects (run rs (process_start d))) \<le> 1"
proof -
  let ?n = "fst (getWifiInterfaceName dbus s)"
  let ?s1 = "snd (getWifiInterfaceName dbus s)"
  have name1: "name_static ?s1 = Some ?n"
    using getName_frame [of dbus s] by simp
  then have later: "name_static (run rs ?s1) = Some ?n"
    by (rule run_keeps_name)
  then have again: "getWifiInterfaceName dbus' (run rs ?s1) = (?n, run rs ?s1)"
    by (rule getName_cached)
  have same: "fetch_count (effects (run rs ?s1)) = fetch_count (effects ?s1)"
    using run_budget [of rs ?s1] name1 later by simp
  have once: "fetch_count (effects ?s1) \<le> Suc (fetch_count (effects s))"
    using getName_budget [of dbus s] by (simp split: if_splits)
  have start: "fetch_count (effects (run rs (process_start d))) \<le> 1"
    using run_budget [of rs "process_start d"]
    by (simp add: process_start_def split: if_splits)
  show ?thesis
    using again same once start by simp
qed

section \<open>Properties: the HDCP bridge\<close>

text \<open>
  C8. A hot-unplug event (a hot-plug event that does not carry the code for "connected")
  makes the reported HDCP status UNAUTHENTICATED, whatever raw HDCP status event came
  last before it.
\<close>

theorem hot_unplug_forces_unauthenticated:
  "connectStatus \<noteq> connected \<Longrightarrow>
   getHDCPStatus mapper
     (onHdmiOutputHotPlug connected connectStatus (onHdmiOutputHDCPStatusEvent raw h)) =
   UNAUTHENTICATED"
  by (simp add: getHDCPStatus_def onHdmiOutputHotPlug_def onHdmiOutputHDCPStatusEvent_def)

theorem hot_unplug_forces_unauthenticated_witness:
  "(1::int) \<noteq> 0 \<and>
   getHDCPStatus sample_mapper
     (onHdmiOutputHDCPStatusEvent 2 \<lparr>hdmi_connected = True, hdcp_raw = 0\<rparr>) = AUTHENTICATED \<and>
   getHDCPStatus sample_mapper
     (onHdmiOutputHotPlug 0 1
        (onHdmiOutputHDCPStatusEvent 2 \<lparr>hdmi_connected = True, hdcp_raw = 0\<rparr>)) =
     UNAUTHENTICATED"
proof -
  have h: "(1::int) \<noteq> 0" by simp
  have before: "getHDCPStatus sample_mapper
     (onHdmiOutputHDCPStatusEvent 2 \<lparr>hdmi_connected = True, hdcp_raw = 0\<rparr>) = AUTHENTICATED"
    by (simp add: getHDCPStatus_def onHdmiOutputHDCPStatusEvent_def sample_mapper_def)
  show ?thesis
    using h before
      hot_unplug_forces_unauthenticated [OF h, of sample_mapper 2
        "\<lparr>hdmi_connected = True, hdcp_raw = 0\<rparr>"]
    by simp
qed

end
